theory Spec2Isabelle
  imports Complex_Main
begin

section \<open>Python values, errors and numpy primitives\<close>

text \<open>
  The development embeds \<^verbatim>\<open>optbinning/binning/multidimensional/continuous_binning_2d.py\<close>.
  A raised exception is a value \<open>Inl e\<close>; the payload of \<open>TypeError\<close> and \<open>ValueError\<close>
  is the name of the offending parameter (the source formats a longer message).
\<close>

datatype error =
    TypeError string
  | ValueError string
  | IndexError
  | UnboundLocalError
  | NotFittedError

text \<open>
  Constructor arguments are dynamically typed. \<open>pyval\<close> covers the Python values the
  parameter checks distinguish: \<open>None\<close>, \<open>bool\<close>, \<open>int\<close>, \<open>float\<close> (finite, as a real),
  \<open>str\<close> and a list of special codes.
\<close>

datatype pyval =
    PNone
  | PBool bool
  | PInt int
  | PFloat real
  | PStr string
  | PCodes "real list"

text \<open>\<^verbatim>\<open>isinstance(v, str)\<close>, \<^verbatim>\<open>isinstance(v, bool)\<close>,
  \<^verbatim>\<open>isinstance(v, numbers.Integral)\<close> (\<open>bool\<close> is a subclass of \<open>int\<close>),
  \<^verbatim>\<open>isinstance(v, numbers.Number)\<close> and \<^verbatim>\<open>isinstance(v, (np.ndarray, list))\<close>.\<close>

fun is_str :: "pyval \<Rightarrow> bool" where
  "is_str (PStr s) = True"
| "is_str v = False"

fun is_bool :: "pyval \<Rightarrow> bool" where
  "is_bool (PBool b) = True"
| "is_bool v = False"

fun is_integral :: "pyval \<Rightarrow> bool" where
  "is_integral (PBool b) = True"
| "is_integral (PInt i) = True"
| "is_integral v = False"

fun is_number :: "pyval \<Rightarrow> bool" where
  "is_number (PBool b) = True"
| "is_number (PInt i) = True"
| "is_number (PFloat r) = True"
| "is_number v = False"

fun is_codes :: "pyval \<Rightarrow> bool" where
  "is_codes (PCodes cs) = True"
| "is_codes v = False"

text \<open>The numeric value of a Python number; \<open>None\<close> for a value that an ordering
  comparison with a number rejects with \<open>TypeError\<close>.\<close>

fun num_val :: "pyval \<Rightarrow> real option" where
  "num_val (PBool b) = Some (if b then 1 else 0)"
| "num_val (PInt i) = Some (of_int i)"
| "num_val (PFloat r) = Some r"
| "num_val v = None"

text \<open>A numpy float: a finite value, an infinity or not-a-number.\<close>

datatype npfloat = Fin real | PosInf | NegInf | NaN

text \<open>
  \<^verbatim>\<open>a / b\<close> on numpy scalars with a finite numerator: a zero divisor does not raise,
  it yields \<open>nan\<close> for \<open>0 / 0\<close> and a signed infinity otherwise.
\<close>

definition np_div :: "real \<Rightarrow> int \<Rightarrow> npfloat" where
  "np_div a b =
     (if b \<noteq> 0 then Fin (a / of_int b)
      else if a = 0 then NaN
      else if 0 < a then PosInf else NegInf)"

text \<open>\<^verbatim>\<open>np.sum\<close> and \<^verbatim>\<open>np.std\<close> (population standard deviation) of a one-dimensional array.\<close>

definition np_sum :: "real list \<Rightarrow> real" where
  "np_sum zs = sum_list zs"

definition np_mean :: "real list \<Rightarrow> real" where
  "np_mean zs = sum_list zs / of_nat (length zs)"

definition np_std :: "real list \<Rightarrow> real" where
  "np_std zs = sqrt (sum_list (map (\<lambda>z. (z - np_mean zs)\<^sup>2) zs) / of_nat (length zs))"

text \<open>
  \<^verbatim>\<open>np.searchsorted(bins, v, side)\<close> on ascending bins: the insertion point that keeps
  the order, after the equal entries (\<open>right\<close>) or before them (\<open>left\<close>).
\<close>

fun searchsorted_right :: "real list \<Rightarrow> real \<Rightarrow> nat" where
  "searchsorted_right [] v = 0"
| "searchsorted_right (b # bs) v = (if b \<le> v then Suc (searchsorted_right bs v) else 0)"

fun searchsorted_left :: "real list \<Rightarrow> real \<Rightarrow> nat" where
  "searchsorted_left [] v = 0"
| "searchsorted_left (b # bs) v = (if b < v then Suc (searchsorted_left bs v) else 0)"

text \<open>
  \<^verbatim>\<open>np.digitize(xs, bins, right=False)\<close>: bins must be monotonic, which is checked
  first, also for an empty array; ascending bins use the right insertion point,
  descending bins the mirrored left one.
\<close>

definition digitize :: "real list \<Rightarrow> real list \<Rightarrow> error + nat list" where
  "digitize xs bins =
     (if sorted bins then Inr (map (searchsorted_right bins) xs)
      else if sorted (rev bins)
        then Inr (map (\<lambda>v. length bins - searchsorted_left (rev bins) v) xs)
      else Inl (ValueError ''bins''))"

section \<open>Parameter checks\<close>

record params =
  name_x :: pyval
  name_y :: pyval
  dtype_x :: pyval
  dtype_y :: pyval
  prebinning_method :: pyval
  strategy :: pyval
  solver :: pyval
  max_n_prebins_x :: pyval
  max_n_prebins_y :: pyval
  min_prebin_size_x :: pyval
  min_prebin_size_y :: pyval
  min_n_bins :: pyval
  max_n_bins :: pyval
  min_bin_size :: pyval
  max_bin_size :: pyval
  monotonic_trend_x :: pyval
  monotonic_trend_y :: pyval
  min_mean_diff_x :: pyval
  min_mean_diff_y :: pyval
  gamma :: pyval
  special_codes_x :: pyval
  special_codes_y :: pyval
  split_digits :: pyval
  n_jobs :: pyval
  time_limit :: pyval
  verbose :: pyval

text \<open>Each \<^verbatim>\<open>if ...: raise ...\<close> of \<^verbatim>\<open>_check_parameters\<close> is one check yielding the
  error it raises, if any; the checks run in the order of the source.\<close>

definition chk_str :: "string \<Rightarrow> pyval \<Rightarrow> error option" where
  "chk_str nm v = (if \<not> is_str v then Some (TypeError nm) else None)"

definition chk_in :: "string \<Rightarrow> pyval \<Rightarrow> string list \<Rightarrow> error option" where
  "chk_in nm v allowed =
     (if \<not> (case v of PStr s \<Rightarrow> s \<in> set allowed | _ \<Rightarrow> False)
      then Some (ValueError nm) else None)"

definition chk_prebins :: "string \<Rightarrow> pyval \<Rightarrow> error option" where
  "chk_prebins nm v =
     (if \<not> is_integral v \<or> (case num_val v of Some r \<Rightarrow> r \<le> 1 | None \<Rightarrow> False)
      then Some (ValueError nm) else None)"

text \<open>\<^verbatim>\<open>if not 0. < v <= hi\<close> without a type guard: comparing a non-number with a
  float raises \<open>TypeError\<close>.\<close>

definition chk_fraction :: "string \<Rightarrow> pyval \<Rightarrow> real \<Rightarrow> error option" where
  "chk_fraction nm v hi =
     (case num_val v of
        None \<Rightarrow> Some (TypeError nm)
      | Some r \<Rightarrow> if \<not> (0 < r \<and> r \<le> hi) then Some (ValueError nm) else None)"

definition chk_opt_positive :: "string \<Rightarrow> pyval \<Rightarrow> error option" where
  "chk_opt_positive nm v =
     (if v \<noteq> PNone then
        (if \<not> is_integral v \<or> (case num_val v of Some r \<Rightarrow> r \<le> 0 | None \<Rightarrow> False)
         then Some (ValueError nm) else None)
      else None)"

definition chk_opt_le :: "string \<Rightarrow> pyval \<Rightarrow> pyval \<Rightarrow> error option" where
  "chk_opt_le nm lo hi =
     (if lo \<noteq> PNone \<and> hi \<noteq> PNone then
        (case (num_val lo, num_val hi) of
           (Some a, Some b) \<Rightarrow> if a > b then Some (ValueError nm) else None
         | _ \<Rightarrow> Some (TypeError nm))
      else None)"

definition chk_opt_fraction :: "string \<Rightarrow> pyval \<Rightarrow> real \<Rightarrow> error option" where
  "chk_opt_fraction nm v hi =
     (if v \<noteq> PNone then
        (if \<not> is_number v \<or> (case num_val v of Some r \<Rightarrow> \<not> (0 < r \<and> r \<le> hi) | None \<Rightarrow> False)
         then Some (ValueError nm) else None)
      else None)"

definition chk_opt_in :: "string \<Rightarrow> pyval \<Rightarrow> string list \<Rightarrow> error option" where
  "chk_opt_in nm v allowed = (if v \<noteq> PNone then chk_in nm v allowed else None)"

definition chk_number :: "string \<Rightarrow> pyval \<Rightarrow> error option" where
  "chk_number nm v = (if \<not> is_number v then Some (ValueError nm) else None)"

definition chk_nonneg :: "string \<Rightarrow> pyval \<Rightarrow> error option" where
  "chk_nonneg nm v =
     (if \<not> is_number v \<or> (case num_val v of Some r \<Rightarrow> r < 0 | None \<Rightarrow> False)
      then Some (ValueError nm) else None)"

definition chk_opt_codes :: "string \<Rightarrow> pyval \<Rightarrow> error option" where
  "chk_opt_codes nm v =
     (if v \<noteq> PNone then (if \<not> is_codes v then Some (TypeError nm) else None) else None)"

definition chk_opt_digits :: "string \<Rightarrow> pyval \<Rightarrow> error option" where
  "chk_opt_digits nm v =
     (if v \<noteq> PNone then
        (if \<not> is_integral v
            \<or> (case num_val v of Some r \<Rightarrow> \<not> (0 \<le> r \<and> r \<le> 8) | None \<Rightarrow> False)
         then Some (ValueError nm) else None)
      else None)"

definition chk_opt_integral :: "string \<Rightarrow> pyval \<Rightarrow> error option" where
  "chk_opt_integral nm v =
     (if v \<noteq> PNone then (if \<not> is_integral v then Some (ValueError nm) else None) else None)"

definition chk_bool :: "string \<Rightarrow> pyval \<Rightarrow> error option" where
  "chk_bool nm v = (if \<not> is_bool v then Some (TypeError nm) else None)"

fun first_error :: "error option list \<Rightarrow> error + unit" where
  "first_error [] = Inr ()"
| "first_error (None # cs) = first_error cs"
| "first_error (Some e # cs) = Inl e"

definition check_parameters :: "params \<Rightarrow> error + unit" where
  "check_parameters p = first_error
     [chk_str ''name_x'' (name_x p),
      chk_str ''name_y'' (name_y p),
      chk_in ''dtype_x'' (dtype_x p) [''numerical''],
      chk_in ''dtype_y'' (dtype_y p) [''numerical''],
      chk_in ''prebinning_method'' (prebinning_method p)
        [''cart'', ''mdlp'', ''quantile'', ''uniform''],
      chk_in ''strategy'' (strategy p) [''grid'', ''cart''],
      chk_in ''solver'' (solver p) [''cp'', ''mip''],
      chk_prebins ''max_n_prebins_x'' (max_n_prebins_x p),
      chk_prebins ''max_n_prebins_y'' (max_n_prebins_y p),
      chk_fraction ''min_prebin_size_x'' (min_prebin_size_x p) (1/2),
      chk_fraction ''min_prebin_size_y'' (min_prebin_size_y p) (1/2),
      chk_opt_positive ''min_n_bins'' (min_n_bins p),
      chk_opt_positive ''max_n_bins'' (max_n_bins p),
      chk_opt_le ''min_n_bins'' (min_n_bins p) (max_n_bins p),
      chk_opt_fraction ''min_bin_size'' (min_bin_size p) (1/2),
      chk_opt_fraction ''max_bin_size'' (max_bin_size p) 1,
      chk_opt_le ''min_bin_size'' (min_bin_size p) (max_bin_size p),
      chk_opt_in ''monotonic_trend_x'' (monotonic_trend_x p) [''ascending'', ''descending''],
      chk_opt_in ''monotonic_trend_y'' (monotonic_trend_y p) [''ascending'', ''descending''],
      chk_number ''min_mean_diff_x'' (min_mean_diff_x p),
      chk_number ''min_mean_diff_y'' (min_mean_diff_y p),
      chk_nonneg ''gamma'' (gamma p),
      chk_opt_codes ''special_codes_x'' (special_codes_x p),
      chk_opt_codes ''special_codes_y'' (special_codes_y p),
      chk_opt_digits ''split_digits'' (split_digits p),
      chk_opt_integral ''n_jobs'' (n_jobs p),
      chk_nonneg ''time_limit'' (time_limit p),
      chk_bool ''verbose'' (verbose p)]"

section \<open>Arrays and loops\<close>

text \<open>
  A two-dimensional numpy array: its shape and its cells in row-major order.
  \<^verbatim>\<open>np.empty\<close> leaves every cell uninitialised (\<open>None\<close>) until it is written.
\<close>

record 'a ndarray2 =
  shape0 :: nat
  shape1 :: nat
  cells :: "'a option list"

definition np_empty2 :: "nat \<Rightarrow> nat \<Rightarrow> 'a ndarray2" where
  "np_empty2 a b = \<lparr>shape0 = a, shape1 = b, cells = replicate (a * b) None\<rparr>"

text \<open>\<^verbatim>\<open>M[i, j] = v\<close> with non-negative indices: out of range raises \<open>IndexError\<close>.\<close>

definition setitem2 :: "'a ndarray2 \<Rightarrow> nat \<Rightarrow> nat \<Rightarrow> 'a \<Rightarrow> error + 'a ndarray2" where
  "setitem2 M i j v =
     (if i < shape0 M \<and> j < shape1 M
      then Inr (M\<lparr>cells := (cells M)[i * shape1 M + j := Some v]\<rparr>)
      else Inl IndexError)"

text \<open>\<^verbatim>\<open>M.size\<close>, and \<^verbatim>\<open>np.sum(M)\<close>, which is only meaningful once every cell is written.\<close>

definition np_size2 :: "'a ndarray2 \<Rightarrow> nat" where
  "np_size2 M = shape0 M * shape1 M"

fun sum_cells :: "real option list \<Rightarrow> real option" where
  "sum_cells [] = Some 0"
| "sum_cells (None # cs) = None"
| "sum_cells (Some v # cs) = (case sum_cells cs of None \<Rightarrow> None | Some s \<Rightarrow> Some (v + s))"

definition np_sum2 :: "real ndarray2 \<Rightarrow> real option" where
  "np_sum2 M = sum_cells (cells M)"

text \<open>A \<^verbatim>\<open>for\<close> loop whose body may raise: the first exception ends the loop.\<close>

fun fold_err :: "('a \<Rightarrow> 's \<Rightarrow> error + 's) \<Rightarrow> 'a list \<Rightarrow> 's \<Rightarrow> error + 's" where
  "fold_err f [] s = Inr s"
| "fold_err f (a # as) s = (case f a s of Inl e \<Rightarrow> Inl e | Inr s' \<Rightarrow> fold_err f as s')"

text \<open>\<^verbatim>\<open>a[mask]\<close> with a boolean mask: the mask must have the length of the array.\<close>

definition mask_select :: "'a list \<Rightarrow> bool list \<Rightarrow> error + 'a list" where
  "mask_select xs sel =
     (if length sel = length xs then Inr (map fst (filter snd (zip xs sel)))
      else Inl IndexError)"

text \<open>\<^verbatim>\<open>A[r] = v\<close> for a list \<open>r\<close> of non-negative flat indices into a one-dimensional
  array: any index out of range raises \<open>IndexError\<close>.\<close>

definition set_cells :: "'a option list \<Rightarrow> nat list \<Rightarrow> 'a \<Rightarrow> error + 'a option list" where
  "set_cells A r v =
     (if \<forall>c \<in> set r. c < length A then Inr (fold (\<lambda>c B. B[c := Some v]) r A)
      else Inl IndexError)"

section \<open>Samples\<close>

text \<open>
  The nine arrays returned by \<^verbatim>\<open>split_data_2d\<close>: three parallel arrays for each of the
  clean, missing and special subsets, kept as lists of \<open>(x, y, z)\<close> samples. Clean
  coordinates are finite.
\<close>

record segments =
  clean :: "(real \<times> real \<times> real) list"
  missing :: "(npfloat \<times> npfloat \<times> real) list"
  special :: "(npfloat \<times> npfloat \<times> real) list"

definition x_clean :: "segments \<Rightarrow> real list" where
  "x_clean seg = map fst (clean seg)"

definition y_clean :: "segments \<Rightarrow> real list" where
  "y_clean seg = map (fst \<circ> snd) (clean seg)"

definition z_clean :: "segments \<Rightarrow> real list" where
  "z_clean seg = map (snd \<circ> snd) (clean seg)"

definition z_missing :: "segments \<Rightarrow> real list" where
  "z_missing seg = map (snd \<circ> snd) (missing seg)"

definition z_special :: "segments \<Rightarrow> real list" where
  "z_special seg = map (snd \<circ> snd) (special seg)"

section \<open>The estimator and its collaborators\<close>

text \<open>
  \<^verbatim>\<open>DecisionTreeRegressor(min_samples_leaf=..., max_leaf_nodes=...)\<close>: the tree object is
  its configuration and, once fitted, the training data it was fitted on.
\<close>

record tree =
  min_samples_leaf :: real
  max_leaf_nodes :: nat
  fitted_on :: "((nat option \<times> nat option) list \<times> real list) option"

text \<open>
  The result of \<^verbatim>\<open>continuous_model_data\<close>: the candidate rectangles (\<open>rows\<close>, each a list
  of flat cell indices) with their counts, sums and standard deviations; \<open>md_other\<close>
  stands for the part only the solver reads (\<^verbatim>\<open>n_grid, n_rectangles, cols, c,
  d_connected_x, d_connected_y, mean\<close>).
\<close>

record 'o model_data =
  md_rows :: "nat list list"
  md_n_records :: "int list"
  md_sums :: "real list"
  md_stds :: "real list"
  md_other :: 'o

text \<open>The arguments \<^verbatim>\<open>ContinuousBinningTable2D\<close> is instantiated with.\<close>

record binning_table =
  tb_name_x :: pyval
  tb_name_y :: pyval
  tb_dtype_x :: pyval
  tb_dtype_y :: pyval
  tb_splits_x_optimal :: "npfloat list list"
  tb_splits_y_optimal :: "npfloat list list"
  tb_m :: nat
  tb_n :: nat
  tb_n_records :: "int option list"
  tb_sums :: "real option list"
  tb_stds :: "real list"
  tb_D :: "npfloat option list"
  tb_P :: "nat option list"

text \<open>
  The instance: the constructor arguments (\<^verbatim>\<open>get_params()\<close>) and the private attributes
  \<^verbatim>\<open>self._...\<close>, \<open>None\<close> until assigned. Timing attributes and logging are left out.
\<close>

record binning =
  get_params :: params
  self_n_records_special :: "nat option"
  self_n_records_missing :: "nat option"
  self_sum_special :: "real option"
  self_sum_missing :: "real option"
  self_std_special :: "real option"
  self_std_missing :: "real option"
  self_binning_table :: "binning_table option"
  self_n_prebins :: "nat option"
  self_n_refinements :: int
  self_n_samples :: "nat option"
  self_solution :: "bool list option"
  self_splits_x_optimal :: "npfloat list list option"
  self_splits_y_optimal :: "npfloat list list option"
  self_status :: "string option"
  self_is_fitted :: bool
  self_clf :: "tree option"
  self_selected_rows :: "nat list list option"
  self_m :: "nat option"
  self_n :: "nat option"
  self_sums :: "real option list option"
  self_n_records :: "int option list option"
  self_rows :: "nat list list option"
  self_name :: "string option"

text \<open>\<^verbatim>\<open>__init__\<close>: stores the arguments and resets the private attributes.\<close>

definition init :: "params \<Rightarrow> binning" where
  "init p =
     \<lparr>get_params = p,
      self_n_records_special = None, self_n_records_missing = None,
      self_sum_special = None, self_sum_missing = None,
      self_std_special = None, self_std_missing = None,
      self_binning_table = None, self_n_prebins = None, self_n_refinements = 0,
      self_n_samples = None, self_solution = None,
      self_splits_x_optimal = None, self_splits_y_optimal = None,
      self_status = None, self_is_fitted = False, self_clf = None,
      self_selected_rows = None, self_m = None, self_n = None,
      self_sums = None, self_n_records = None, self_rows = None, self_name = None\<rparr>"

text \<open>
  The collaborators that live outside this file are parameters of the model:
  \<^item> \<open>split_data_2d\<close> (\<^verbatim>\<open>preprocessing_2d\<close>),
  \<^item> \<open>fit_prebinning\<close> (\<^verbatim>\<open>OptimalBinning2D._fit_prebinning\<close>, which also reads the
    instance's parameters),
  \<^item> \<open>tree_fit\<close> (\<^verbatim>\<open>DecisionTreeRegressor.fit\<close>),
  \<^item> \<open>effective_n_jobs\<close> (joblib),
  \<^item> \<open>continuous_model_data\<close> and \<open>continuous_model_data_cart\<close>,
  \<^item> \<open>optimizer_solve\<close>: constructing \<^verbatim>\<open>Binning2DCP\<close> or \<^verbatim>\<open>Binning2DMIP\<close> (chosen by the
    first argument) from the parameters and the job count, then \<^verbatim>\<open>build_model\<close> and
    \<^verbatim>\<open>solve\<close>; it returns the status, the selection vector and the solver object,
  \<^item> \<open>solver_statistics\<close> (\<^verbatim>\<open>information\<close>), whose returned diagnostics are not kept,
  \<^item> \<open>splits_xy_optimal\<close> (\<^verbatim>\<open>OptimalBinning2D._splits_xy_optimal\<close>),
  \<^item> \<open>transform_continuous_target\<close> (\<^verbatim>\<open>transformations_2d\<close>).
\<close>

record ('o, 'v) externals =
  split_data_2d :: "pyval \<Rightarrow> pyval \<Rightarrow> npfloat list \<Rightarrow> npfloat list \<Rightarrow> real list
                    \<Rightarrow> pyval \<Rightarrow> pyval \<Rightarrow> bool \<Rightarrow> error + segments"
  fit_prebinning :: "params \<Rightarrow> pyval \<Rightarrow> real list \<Rightarrow> real list \<Rightarrow> pyval \<Rightarrow> pyval
                     \<Rightarrow> error + real list"
  tree_fit :: "tree \<Rightarrow> (nat option \<times> nat option) list \<Rightarrow> real list \<Rightarrow> error + unit"
  effective_n_jobs :: "pyval \<Rightarrow> error + int"
  continuous_model_data ::
    "real ndarray2 \<Rightarrow> real ndarray2 \<Rightarrow> real ndarray2 \<Rightarrow> pyval \<Rightarrow> pyval
     \<Rightarrow> int option \<Rightarrow> int option \<Rightarrow> int option \<Rightarrow> error + 'o model_data"
  continuous_model_data_cart ::
    "tree \<Rightarrow> real ndarray2 \<Rightarrow> real ndarray2 \<Rightarrow> real ndarray2 \<Rightarrow> pyval \<Rightarrow> pyval
     \<Rightarrow> int option \<Rightarrow> int option \<Rightarrow> int option \<Rightarrow> error + 'o model_data"
  optimizer_solve ::
    "string \<Rightarrow> params \<Rightarrow> int \<Rightarrow> 'o model_data \<Rightarrow> error + (string \<times> bool list \<times> 'v)"
  solver_statistics :: "pyval \<Rightarrow> 'v \<Rightarrow> error + unit"
  splits_xy_optimal ::
    "nat list list \<Rightarrow> real list \<Rightarrow> real list \<Rightarrow> nat option list \<Rightarrow> nat \<Rightarrow> nat
     \<Rightarrow> error + (npfloat list list \<times> npfloat list list)"
  transform_continuous_target ::
    "npfloat list list option \<Rightarrow> npfloat list list option \<Rightarrow> npfloat list \<Rightarrow> npfloat list
     \<Rightarrow> int option list option \<Rightarrow> real option list option \<Rightarrow> pyval \<Rightarrow> pyval
     \<Rightarrow> pyval \<Rightarrow> pyval \<Rightarrow> pyval \<Rightarrow> pyval \<Rightarrow> bool \<Rightarrow> error + pyval list"

section \<open>Pre-binning matrices\<close>

text \<open>
  One pass of the inner loop body of \<^verbatim>\<open>_prebinning_matrices\<close>: \<open>i\<close> runs over the y bins,
  \<open>j\<close> over the x bins, and the three statistics of the samples with
  \<^verbatim>\<open>indices_x == j\<close> and \<^verbatim>\<open>indices_y == i\<close> are stored at \<^verbatim>\<open>[i, j]\<close>.
\<close>

definition cell_mask :: "nat list \<Rightarrow> nat list \<Rightarrow> nat \<Rightarrow> nat \<Rightarrow> bool list" where
  "cell_mask indices_x indices_y i j = map (\<lambda>(a, b). a = j \<and> b = i) (zip indices_x indices_y)"

definition cell_body ::
  "nat list \<Rightarrow> nat list \<Rightarrow> real list \<Rightarrow> nat \<Rightarrow> nat
   \<Rightarrow> real ndarray2 \<times> real ndarray2 \<times> real ndarray2
   \<Rightarrow> error + (real ndarray2 \<times> real ndarray2 \<times> real ndarray2)" where
  "cell_body indices_x indices_y zc i j M =
     (case M of (R, S, SS) \<Rightarrow>
      (case mask_select zc (cell_mask indices_x indices_y i j) of
         Inl e \<Rightarrow> Inl e
       | Inr zmask \<Rightarrow>
      (case setitem2 R i j (of_nat (length (filter id (cell_mask indices_x indices_y i j)))) of
         Inl e \<Rightarrow> Inl e
       | Inr R' \<Rightarrow>
      (case setitem2 S i j (np_sum zmask) of
         Inl e \<Rightarrow> Inl e
       | Inr S' \<Rightarrow>
      (case setitem2 SS i j (np_sum (map (\<lambda>z. z\<^sup>2) zmask)) of
         Inl e \<Rightarrow> Inl e
       | Inr SS' \<Rightarrow> Inr (R', S', SS'))))))"

definition prebinning_matrices ::
  "binning \<Rightarrow> real list \<Rightarrow> real list \<Rightarrow> segments
   \<Rightarrow> (error + (real ndarray2 \<times> real ndarray2 \<times> real ndarray2)) \<times> binning" where
  "prebinning_matrices self splits_x splits_y seg =
     (let self1 = self
            \<lparr>self_n_records_missing := Some (length (z_missing seg)),
             self_n_records_special := Some (length (z_special seg)),
             self_sum_missing := Some (np_sum (z_missing seg)),
             self_sum_special := Some (np_sum (z_special seg))\<rparr>;
          self2 = self1
            \<lparr>self_std_missing :=
               Some (if length (z_missing seg) \<noteq> 0 then np_std (z_missing seg) else 0)\<rparr>;
          self3 = self2
            \<lparr>self_std_special :=
               Some (if length (z_special seg) \<noteq> 0 then np_std (z_special seg) else 0)\<rparr>;
          n_splits_x = length splits_x;
          n_splits_y = length splits_y
      in
      (case digitize (x_clean seg) splits_x of
         Inl e \<Rightarrow> (Inl e, self3)
       | Inr indices_x \<Rightarrow>
      (let n_bins_x = n_splits_x + 1 in
      (case digitize (y_clean seg) splits_y of
         Inl e \<Rightarrow> (Inl e, self3)
       | Inr indices_y \<Rightarrow>
      (let n_bins_y = n_splits_y + 1;
           R = np_empty2 n_bins_x n_bins_y;
           S = np_empty2 n_bins_x n_bins_y;
           SS = np_empty2 n_bins_x n_bins_y
       in
       (fold_err
          (\<lambda>i. fold_err (cell_body indices_x indices_y (z_clean seg) i) [0..<n_bins_x])
          [0..<n_bins_y] (R, S, SS),
        self3))))))"

section \<open>The tree of the cart strategy\<close>

text \<open>\<^verbatim>\<open>xt = np.empty(len, dtype=int)\<close> followed by
  \<^verbatim>\<open>for i in range(n_bins): xt[(indices == i)] = i\<close>.\<close>

definition bin_labels :: "nat list \<Rightarrow> nat \<Rightarrow> nat option list" where
  "bin_labels indices n_bins =
     fold (\<lambda>i xt. map (\<lambda>(k, c). if k = i then Some i else c) (zip indices xt))
       [0..<n_bins] (replicate (length indices) None)"

text \<open>\<^verbatim>\<open>min(a, b) * 0.25\<close> on two parameter values.\<close>

definition quarter_min :: "pyval \<Rightarrow> pyval \<Rightarrow> error + real" where
  "quarter_min a b =
     (case (num_val a, num_val b) of
        (Some u, Some v) \<Rightarrow> Inr (min u v * 0.25)
      | _ \<Rightarrow> Inl (TypeError ''min_prebin_size''))"

text \<open>The block \<^verbatim>\<open>if self.strategy == "cart": ...\<close> of \<^verbatim>\<open>_fit\<close>.\<close>

definition cart_stage ::
  "('o, 'v) externals \<Rightarrow> binning \<Rightarrow> real list \<Rightarrow> real list \<Rightarrow> segments
   \<Rightarrow> (error + unit) \<times> binning" where
  "cart_stage ext self splits_x splits_y seg =
     (if strategy (get_params self) = PStr ''cart'' then
        (let n_splits_x = length splits_x;
             n_splits_y = length splits_y;
             clf_nodes = n_splits_x * n_splits_y
         in
         (case digitize (x_clean seg) splits_x of
            Inl e \<Rightarrow> (Inl e, self)
          | Inr indices_x \<Rightarrow>
         (let n_bins_x = n_splits_x + 1 in
         (case digitize (y_clean seg) splits_y of
            Inl e \<Rightarrow> (Inl e, self)
          | Inr indices_y \<Rightarrow>
         (let n_bins_y = n_splits_y + 1;
              xt = bin_labels indices_x n_bins_x;
              yt = bin_labels indices_y n_bins_y;
              xyt = zip xt yt
          in
          (case quarter_min (min_prebin_size_x (get_params self))
                            (min_prebin_size_y (get_params self)) of
             Inl e \<Rightarrow> (Inl e, self)
           | Inr min_prebin_size \<Rightarrow>
          (let clf = \<lparr>min_samples_leaf = min_prebin_size, max_leaf_nodes = clf_nodes,
                      fitted_on = None\<rparr>
           in
           (case tree_fit ext clf xyt (z_clean seg) of
              Inl e \<Rightarrow> (Inl e, self)
            | Inr u \<Rightarrow>
                (Inr (),
                 self\<lparr>self_clf := Some (clf\<lparr>fitted_on := Some (xyt, z_clean seg)\<rparr>)\<rparr>)))))))))
      else (Inr (), self))"

section \<open>The optimizer\<close>

text \<open>
  \<^verbatim>\<open>int(np.ceil(self.min_bin_size * self._n_samples))\<close> when the fraction is set, \<open>None\<close>
  otherwise; the same expression serves \<open>max_bin_size\<close>.
\<close>

definition bin_size_bound :: "pyval \<Rightarrow> nat option \<Rightarrow> error + int option" where
  "bin_size_bound fraction n_samples =
     (if fraction \<noteq> PNone then
        (case (num_val fraction, n_samples) of
           (Some f, Some n) \<Rightarrow> Inr (Some \<lceil>f * of_nat n\<rceil>)
         | _ \<Rightarrow> Inl (TypeError ''bin_size''))
      else Inr None)"

text \<open>\<^verbatim>\<open>if self.solver == "cp": scale = int(1e6) ... elif self.solver == "mip": scale = None\<close>;
  any other value leaves \<open>scale\<close> and \<open>optimizer\<close> unbound.\<close>

definition solver_choice :: "pyval \<Rightarrow> error + (string \<times> int option)" where
  "solver_choice sv =
     (if sv = PStr ''cp'' then Inr (''cp'', Some 1000000)
      else if sv = PStr ''mip'' then Inr (''mip'', None)
      else Inl UnboundLocalError)"

definition model_data_call ::
  "('o, 'v) externals \<Rightarrow> binning \<Rightarrow> real ndarray2 \<Rightarrow> real ndarray2 \<Rightarrow> real ndarray2
   \<Rightarrow> int option \<Rightarrow> int option \<Rightarrow> int option \<Rightarrow> error + 'o model_data" where
  "model_data_call ext self R S SS scale min_b max_b =
     (if strategy (get_params self) = PStr ''cart'' then
        (case self_clf self of
           None \<Rightarrow> Inl (TypeError ''_clf'')
         | Some clf \<Rightarrow>
             continuous_model_data_cart ext clf R S SS
               (monotonic_trend_x (get_params self)) (monotonic_trend_y (get_params self))
               scale min_b max_b)
      else
        continuous_model_data ext R S SS
          (monotonic_trend_x (get_params self)) (monotonic_trend_y (get_params self))
          scale min_b max_b)"

text \<open>\<^verbatim>\<open>_fit_optimizer\<close> from the bounds on: job count, solver choice, model data, solve,
  and the bookkeeping of the result.\<close>

definition optimize_with_bounds ::
  "('o, 'v) externals \<Rightarrow> binning \<Rightarrow> real ndarray2 \<Rightarrow> real ndarray2 \<Rightarrow> real ndarray2
   \<Rightarrow> int option \<Rightarrow> int option
   \<Rightarrow> (error + (nat list list \<times> int list \<times> real list \<times> real list)) \<times> binning" where
  "optimize_with_bounds ext self R S SS min_b max_b =
     (case effective_n_jobs ext (n_jobs (get_params self)) of
        Inl e \<Rightarrow> (Inl e, self)
      | Inr nj \<Rightarrow>
     (case solver_choice (solver (get_params self)) of
        Inl e \<Rightarrow> (Inl e, self)
      | Inr (kind, scale) \<Rightarrow>
     (case model_data_call ext self R S SS scale min_b max_b of
        Inl e \<Rightarrow> (Inl e, self)
      | Inr md \<Rightarrow>
     (case optimizer_solve ext kind (get_params self) nj md of
        Inl e \<Rightarrow> (Inl e, self)
      | Inr (status, solution, solver_obj) \<Rightarrow>
     (let self1 = self\<lparr>self_solution := Some solution\<rparr> in
     (case solver_statistics ext (solver (get_params self)) solver_obj of
        Inl e \<Rightarrow> (Inl e, self1)
      | Inr u \<Rightarrow>
     (let self2 = self1\<lparr>self_status := Some status\<rparr>;
          self3 = self2\<lparr>self_rows := Some (md_rows md)\<rparr>
      in (Inr (md_rows md, md_n_records md, md_sums md, md_stds md), self3))))))))"

definition fit_optimizer ::
  "('o, 'v) externals \<Rightarrow> binning \<Rightarrow> real list \<Rightarrow> real list
   \<Rightarrow> real ndarray2 \<Rightarrow> real ndarray2 \<Rightarrow> real ndarray2
   \<Rightarrow> (error + (nat list list \<times> int list \<times> real list \<times> real list)) \<times> binning" where
  "fit_optimizer ext self splits_x splits_y R S SS =
     (case bin_size_bound (min_bin_size (get_params self)) (self_n_samples self) of
        Inl e \<Rightarrow> (Inl e, self)
      | Inr min_b \<Rightarrow>
     (case bin_size_bound (max_bin_size (get_params self)) (self_n_samples self) of
        Inl e \<Rightarrow> (Inl e, self)
      | Inr max_b \<Rightarrow> optimize_with_bounds ext self R S SS min_b max_b))"

section \<open>Post-processing\<close>

text \<open>\<^verbatim>\<open>a[i]\<close> and \<^verbatim>\<open>a[i] = v\<close> for \<open>i \<ge> 0\<close>, and \<^verbatim>\<open>a[-d] = v\<close>, on a one-dimensional
  array.\<close>

definition getitem :: "'a list \<Rightarrow> nat \<Rightarrow> error + 'a" where
  "getitem a i = (if i < length a then Inr (a ! i) else Inl IndexError)"

definition setitem1 :: "'a list \<Rightarrow> nat \<Rightarrow> 'a \<Rightarrow> error + 'a list" where
  "setitem1 a i v = (if i < length a then Inr (a[i := v]) else Inl IndexError)"

definition setitem_neg :: "'a list \<Rightarrow> nat \<Rightarrow> 'a \<Rightarrow> error + 'a list" where
  "setitem_neg a d v =
     (if 1 \<le> d \<and> d \<le> length a then Inr (a[length a - d := v]) else Inl IndexError)"

text \<open>
  The local arrays of the post-processing: \<open>P\<close> and \<open>D\<close> (flat, \<open>m * n\<close> cells,
  \<^verbatim>\<open>np.empty\<close>), \<open>opt_sums\<close> and \<open>opt_n_records\<close> (\<^verbatim>\<open>np.empty\<close>) and \<open>opt_stds\<close>
  (\<^verbatim>\<open>np.zeros\<close>).
\<close>

record recon =
  rc_P :: "nat option list"
  rc_D :: "npfloat option list"
  rc_opt_sums :: "real option list"
  rc_opt_n_records :: "int option list"
  rc_opt_stds :: "real list"

text \<open>The body of \<^verbatim>\<open>for i, r in enumerate(selected_rows)\<close>.\<close>

definition recon_step ::
  "int list \<Rightarrow> real list \<Rightarrow> real list \<Rightarrow> bool list \<Rightarrow> nat \<times> nat list \<Rightarrow> recon
   \<Rightarrow> error + recon" where
  "recon_step n_records sums_v stds solution ir st =
     (case ir of (i, r) \<Rightarrow>
      (case mask_select n_records solution of Inl e \<Rightarrow> Inl e | Inr n_sel \<Rightarrow>
      (case getitem n_sel i of Inl e \<Rightarrow> Inl e | Inr u_n_records \<Rightarrow>
      (case mask_select sums_v solution of Inl e \<Rightarrow> Inl e | Inr s_sel \<Rightarrow>
      (case getitem s_sel i of Inl e \<Rightarrow> Inl e | Inr u_sums \<Rightarrow>
      (let u_mean = np_div u_sums u_n_records in
      (case mask_select stds solution of Inl e \<Rightarrow> Inl e | Inr d_sel \<Rightarrow>
      (case getitem d_sel i of Inl e \<Rightarrow> Inl e | Inr u_stds \<Rightarrow>
      (case set_cells (rc_P st) r i of Inl e \<Rightarrow> Inl e | Inr P' \<Rightarrow>
      (case set_cells (rc_D st) r u_mean of Inl e \<Rightarrow> Inl e | Inr D' \<Rightarrow>
      (case setitem1 (rc_opt_sums st) i (Some u_sums) of Inl e \<Rightarrow> Inl e | Inr os \<Rightarrow>
      (case setitem1 (rc_opt_n_records st) i (Some u_n_records) of
         Inl e \<Rightarrow> Inl e
       | Inr on \<Rightarrow>
      (case setitem1 (rc_opt_stds st) i u_stds of Inl e \<Rightarrow> Inl e | Inr od \<Rightarrow>
         Inr \<lparr>rc_P = P', rc_D = D', rc_opt_sums = os, rc_opt_n_records = on,
              rc_opt_stds = od\<rparr>)))))))))))))"

text \<open>The six assignments of the two trailing entries; an attribute that is still
  \<open>None\<close> cannot be stored in a numeric array.\<close>

definition virtual_bins :: "binning \<Rightarrow> recon \<Rightarrow> error + recon" where
  "virtual_bins self st =
     (case self_n_records_special self of None \<Rightarrow> Inl (TypeError ''_n_records_special'')
      | Some ns \<Rightarrow>
     (case setitem_neg (rc_opt_n_records st) 2 (Some (int ns)) of Inl e \<Rightarrow> Inl e | Inr on1 \<Rightarrow>
     (case self_sum_special self of None \<Rightarrow> Inl (TypeError ''_sum_special'') | Some ss \<Rightarrow>
     (case setitem_neg (rc_opt_sums st) 2 (Some ss) of Inl e \<Rightarrow> Inl e | Inr os1 \<Rightarrow>
     (case self_std_special self of None \<Rightarrow> Inl (TypeError ''_std_special'') | Some ds \<Rightarrow>
     (case setitem_neg (rc_opt_stds st) 2 ds of Inl e \<Rightarrow> Inl e | Inr od1 \<Rightarrow>
     (case self_n_records_missing self of None \<Rightarrow> Inl (TypeError ''_n_records_missing'')
      | Some nm \<Rightarrow>
     (case setitem_neg on1 1 (Some (int nm)) of Inl e \<Rightarrow> Inl e | Inr on2 \<Rightarrow>
     (case self_sum_missing self of None \<Rightarrow> Inl (TypeError ''_sum_missing'') | Some sm \<Rightarrow>
     (case setitem_neg os1 1 (Some sm) of Inl e \<Rightarrow> Inl e | Inr os2 \<Rightarrow>
     (case self_std_missing self of None \<Rightarrow> Inl (TypeError ''_std_missing'') | Some dm \<Rightarrow>
     (case setitem_neg od1 1 dm of Inl e \<Rightarrow> Inl e | Inr od2 \<Rightarrow>
        Inr (st\<lparr>rc_opt_sums := os2, rc_opt_n_records := on2,
                rc_opt_stds := od2\<rparr>)))))))))))))"

text \<open>The solution matrices and the per-bin arrays of \<^verbatim>\<open>_fit\<close>: allocation, the loop over
  the selected rows, then the two trailing entries.\<close>

definition reconstruct ::
  "binning \<Rightarrow> nat \<Rightarrow> nat \<Rightarrow> nat list list \<Rightarrow> int list \<Rightarrow> real list \<Rightarrow> real list
   \<Rightarrow> bool list \<Rightarrow> error + recon" where
  "reconstruct self m n selected_rows n_records sums_v stds solution =
     (let n_selected_rows = length selected_rows + 2;
          st0 = \<lparr>rc_P = replicate (m * n) None, rc_D = replicate (m * n) None,
                 rc_opt_sums = replicate n_selected_rows None,
                 rc_opt_n_records = replicate n_selected_rows None,
                 rc_opt_stds = replicate n_selected_rows 0\<rparr>
      in
      (case fold_err (recon_step n_records sums_v stds solution)
              (enumerate 0 selected_rows) st0 of
         Inl e \<Rightarrow> Inl e
       | Inr st \<Rightarrow> virtual_bins self st))"

text \<open>\<^verbatim>\<open>"-".join((self.name_x, self.name_y))\<close>.\<close>

definition join_names :: "pyval \<Rightarrow> pyval \<Rightarrow> error + string" where
  "join_names a b =
     (case (a, b) of
        (PStr u, PStr v) \<Rightarrow> Inr (u @ ''-'' @ v)
      | _ \<Rightarrow> Inl (TypeError ''name''))"

text \<open>
  \<^verbatim>\<open>_fit\<close> from \<^verbatim>\<open># Refinements\<close> to the end. \<^verbatim>\<open>self._solution\<close> has been assigned by
  \<^verbatim>\<open>_fit_optimizer\<close> whenever this point is reached.
\<close>

definition postprocess ::
  "('o, 'v) externals \<Rightarrow> binning \<Rightarrow> real list \<Rightarrow> real list \<Rightarrow> real ndarray2
   \<Rightarrow> nat list list \<Rightarrow> int list \<Rightarrow> real list \<Rightarrow> real list \<Rightarrow> (error + unit) \<times> binning" where
  "postprocess ext self splits_x splits_y R rows n_records sums_v stds =
     (let m = shape0 R;
          n = shape1 R;
          self1 = self\<lparr>self_n_refinements :=
                    (int m * int n * (int m + 1) * (int n + 1)) div 4 - int (length rows)\<rparr>
      in
      (case self_solution self1 of
         None \<Rightarrow> (Inl (TypeError ''_solution''), self1)
       | Some solution \<Rightarrow>
      (case mask_select rows solution of
         Inl e \<Rightarrow> (Inl e, self1)
       | Inr selected_rows \<Rightarrow>
      (let self2 = self1\<lparr>self_selected_rows := Some selected_rows,
                        self_m := Some m, self_n := Some n\<rparr>
       in
      (case reconstruct self2 m n selected_rows n_records sums_v stds solution of
         Inl e \<Rightarrow> (Inl e, self2)
       | Inr rc \<Rightarrow>
      (let self3 = self2\<lparr>self_sums := Some (rc_opt_sums rc),
                        self_n_records := Some (rc_opt_n_records rc)\<rparr>
       in
      (case splits_xy_optimal ext selected_rows splits_x splits_y (rc_P rc) m n of
         Inl e \<Rightarrow> (Inl e, self3)
       | Inr (sx_opt, sy_opt) \<Rightarrow>
      (let self4 = self3\<lparr>self_splits_x_optimal := Some sx_opt,
                        self_splits_y_optimal := Some sy_opt\<rparr>;
           self5 = self4\<lparr>self_binning_table := Some
                     \<lparr>tb_name_x = name_x (get_params self), tb_name_y = name_y (get_params self),
                      tb_dtype_x = dtype_x (get_params self),
                      tb_dtype_y = dtype_y (get_params self),
                      tb_splits_x_optimal = sx_opt, tb_splits_y_optimal = sy_opt,
                      tb_m = m, tb_n = n,
                      tb_n_records = rc_opt_n_records rc, tb_sums = rc_opt_sums rc,
                      tb_stds = rc_opt_stds rc, tb_D = rc_D rc, tb_P = rc_P rc\<rparr>\<rparr>
       in
      (case join_names (name_x (get_params self)) (name_y (get_params self)) of
         Inl e \<Rightarrow> (Inl e, self5)
       | Inr nm \<Rightarrow>
           (Inr (), self5\<lparr>self_name := Some nm, self_is_fitted := True\<rparr>))))))))))"

section \<open>Fit and transform\<close>

text \<open>\<^verbatim>\<open>_fit\<close>: the parameter check, then pre-processing, pre-binning, optimization and
  post-processing. The result pairs the outcome with the instance as the call leaves it.\<close>

definition u_fit ::
  "('o, 'v) externals \<Rightarrow> binning \<Rightarrow> npfloat list \<Rightarrow> npfloat list \<Rightarrow> real list \<Rightarrow> bool
   \<Rightarrow> (error + unit) \<times> binning" where
  "u_fit ext self x y z check_input =
     (case check_parameters (get_params self) of
        Inl e \<Rightarrow> (Inl e, self)
      | Inr u \<Rightarrow>
     (let self1 = self\<lparr>self_n_samples := Some (length x)\<rparr> in
     (case split_data_2d ext (dtype_x (get_params self)) (dtype_y (get_params self)) x y z
             (special_codes_x (get_params self)) (special_codes_y (get_params self))
             check_input of
        Inl e \<Rightarrow> (Inl e, self1)
      | Inr seg \<Rightarrow>
     (case fit_prebinning ext (get_params self) (dtype_x (get_params self))
             (x_clean seg) (z_clean seg)
             (max_n_prebins_x (get_params self)) (min_prebin_size_x (get_params self)) of
        Inl e \<Rightarrow> (Inl e, self1)
      | Inr splits_x \<Rightarrow>
     (case fit_prebinning ext (get_params self) (dtype_y (get_params self))
             (y_clean seg) (z_clean seg)
             (max_n_prebins_y (get_params self)) (min_prebin_size_y (get_params self)) of
        Inl e \<Rightarrow> (Inl e, self1)
      | Inr splits_y \<Rightarrow>
     (case prebinning_matrices self1 splits_x splits_y seg of
        (Inl e, self2) \<Rightarrow> (Inl e, self2)
      | (Inr (R, S, SS), self2) \<Rightarrow>
     (case cart_stage ext self2 splits_x splits_y seg of
        (Inl e, self3) \<Rightarrow> (Inl e, self3)
      | (Inr u, self3) \<Rightarrow>
     (let self4 = self3\<lparr>self_n_prebins := Some (np_size2 R)\<rparr> in
     (case fit_optimizer ext self4 splits_x splits_y R S SS of
        (Inl e, self5) \<Rightarrow> (Inl e, self5)
      | (Inr (rows, n_records, sums_v, stds), self5) \<Rightarrow>
          postprocess ext self5 splits_x splits_y R rows n_records sums_v stds)))))))))"

definition fit ::
  "('o, 'v) externals \<Rightarrow> binning \<Rightarrow> npfloat list \<Rightarrow> npfloat list \<Rightarrow> real list \<Rightarrow> bool
   \<Rightarrow> (error + unit) \<times> binning" where
  "fit ext self x y z check_input = u_fit ext self x y z check_input"

text \<open>
  Modelled from the spec: \<^verbatim>\<open>_check_is_fitted\<close> is inherited from a class outside this
  file. The spec: a query operation ``requires the model to be fitted; raises otherwise''
  (an unfit-model error).
\<close>

definition check_is_fitted :: "binning \<Rightarrow> error + unit" where
  "check_is_fitted self = (if \<not> self_is_fitted self then Inl NotFittedError else Inr ())"

definition transform ::
  "('o, 'v) externals \<Rightarrow> binning \<Rightarrow> npfloat list \<Rightarrow> npfloat list \<Rightarrow> pyval \<Rightarrow> pyval \<Rightarrow> pyval
   \<Rightarrow> pyval \<Rightarrow> bool \<Rightarrow> error + pyval list" where
  "transform ext self x y metric metric_special metric_missing show_digits check_input =
     (case check_is_fitted self of
        Inl e \<Rightarrow> Inl e
      | Inr u \<Rightarrow>
          transform_continuous_target ext
            (self_splits_x_optimal self) (self_splits_y_optimal self) x y
            (self_n_records self) (self_sums self)
            (special_codes_x (get_params self)) (special_codes_y (get_params self))
            metric metric_special metric_missing show_digits check_input)"

section \<open>Segmentation and defaults\<close>

text \<open>
  Modelled from the spec: \<^verbatim>\<open>split_data_2d\<close> lives in \<^verbatim>\<open>preprocessing_2d\<close>, outside this
  file. The spec: ``A sample is special if either coordinate matches its axis's sentinel
  set; else missing if either coordinate is non-finite; else clean'', the subsets keep
  the input order and cover every index once, and a shape mismatch between \<open>x\<close>, \<open>y\<close>, \<open>z\<close>
  raises when input validation is enabled. The spec leaves a mismatch without
  validation open; the model rejects it as well.
\<close>

definition matches_code :: "pyval \<Rightarrow> npfloat \<Rightarrow> bool" where
  "matches_code codes v =
     (case codes of
        PCodes cs \<Rightarrow> (case v of Fin r \<Rightarrow> r \<in> set cs | _ \<Rightarrow> False)
      | _ \<Rightarrow> False)"

fun split_samples :: "pyval \<Rightarrow> pyval \<Rightarrow> (npfloat \<times> npfloat \<times> real) list \<Rightarrow> segments" where
  "split_samples cx cy [] = \<lparr>clean = [], missing = [], special = []\<rparr>"
| "split_samples cx cy ((a, b, c) # rest) =
     (let seg = split_samples cx cy rest in
      if matches_code cx a \<or> matches_code cy b
      then seg\<lparr>special := (a, b, c) # special seg\<rparr>
      else (case (a, b) of
              (Fin u, Fin v) \<Rightarrow> seg\<lparr>clean := (u, v, c) # clean seg\<rparr>
            | _ \<Rightarrow> seg\<lparr>missing := (a, b, c) # missing seg\<rparr>))"

definition split_data_2d_spec ::
  "pyval \<Rightarrow> pyval \<Rightarrow> npfloat list \<Rightarrow> npfloat list \<Rightarrow> real list \<Rightarrow> pyval \<Rightarrow> pyval \<Rightarrow> bool
   \<Rightarrow> error + segments" where
  "split_data_2d_spec dtx dty x y z cx cy check_input =
     (if length x = length y \<and> length y = length z
      then Inr (split_samples cx cy (zip x (zip y z)))
      else Inl (ValueError ''shape''))"

text \<open>The default arguments of \<^verbatim>\<open>__init__\<close>.\<close>

definition default_params :: params where
  "default_params =
     \<lparr>name_x = PStr [], name_y = PStr [],
      dtype_x = PStr ''numerical'', dtype_y = PStr ''numerical'',
      prebinning_method = PStr ''cart'', strategy = PStr ''grid'', solver = PStr ''cp'',
      max_n_prebins_x = PInt 5, max_n_prebins_y = PInt 5,
      min_prebin_size_x = PFloat 0.05, min_prebin_size_y = PFloat 0.05,
      min_n_bins = PNone, max_n_bins = PNone, min_bin_size = PNone, max_bin_size = PNone,
      monotonic_trend_x = PNone, monotonic_trend_y = PNone,
      min_mean_diff_x = PInt 0, min_mean_diff_y = PInt 0, gamma = PInt 0,
      special_codes_x = PNone, special_codes_y = PNone, split_digits = PNone,
      n_jobs = PInt 1, time_limit = PInt 100, verbose = PBool False\<rparr>"

section \<open>Auxiliary notions for the statements\<close>

text \<open>The two readings of a pre-bin index: ``the count of split points strictly less
  than \<open>v\<close>'' (the words of the specification) and the count of split points that are at
  most \<open>v\<close>.\<close>

definition count_strictly_less :: "real list \<Rightarrow> real \<Rightarrow> nat" where
  "count_strictly_less splits v = length (filter (\<lambda>s. s < v) splits)"

definition count_at_most :: "real list \<Rightarrow> real \<Rightarrow> nat" where
  "count_at_most splits v = length (filter (\<lambda>s. s \<le> v) splits)"

text \<open>
  Collaborators that accept one value only for the minimum (maximum) bin-size bound of
  the model data and raise for any other: a run that is the same with them has passed
  exactly that bound.
\<close>

definition restrict_min_bound :: "('o, 'v) externals \<Rightarrow> int option \<Rightarrow> ('o, 'v) externals" where
  "restrict_min_bound ext bound =
     ext\<lparr>continuous_model_data :=
           (\<lambda>R S SS mx my scale min_b max_b.
              if min_b = bound then continuous_model_data ext R S SS mx my scale min_b max_b
              else Inl (ValueError ''min_bin_size'')),
         continuous_model_data_cart :=
           (\<lambda>clf R S SS mx my scale min_b max_b.
              if min_b = bound
              then continuous_model_data_cart ext clf R S SS mx my scale min_b max_b
              else Inl (ValueError ''min_bin_size''))\<rparr>"

definition restrict_max_bound :: "('o, 'v) externals \<Rightarrow> int option \<Rightarrow> ('o, 'v) externals" where
  "restrict_max_bound ext bound =
     ext\<lparr>continuous_model_data :=
           (\<lambda>R S SS mx my scale min_b max_b.
              if max_b = bound then continuous_model_data ext R S SS mx my scale min_b max_b
              else Inl (ValueError ''max_bin_size'')),
         continuous_model_data_cart :=
           (\<lambda>clf R S SS mx my scale min_b max_b.
              if max_b = bound
              then continuous_model_data_cart ext clf R S SS mx my scale min_b max_b
              else Inl (ValueError ''max_bin_size''))\<rparr>"

text \<open>A configuration error is a \<open>TypeError\<close> or a \<open>ValueError\<close>.\<close>

fun is_config_error :: "error \<Rightarrow> bool" where
  "is_config_error (TypeError nm) = True"
| "is_config_error (ValueError nm) = True"
| "is_config_error e = False"

section \<open>An example run\<close>

text \<open>
  Concrete collaborators for the examples below. Four samples, one special (\<open>x = -999\<close>)
  and one missing; the pre-binning returns the single split point \<open>0\<close> on both axes, so
  the grid has \<open>2 \<times> 2\<close> cells and both clean samples fall in its second row. The model
  data offers three candidates: the whole grid, its first row (no samples) and its second
  row. The solver's status and selection are parameters of the example.
\<close>

definition example_x :: "npfloat list" where
  "example_x = [Fin 1, Fin (- 1), Fin (- 999), NaN]"

definition example_y :: "npfloat list" where
  "example_y = [Fin 1, Fin 1, Fin 3, Fin 4]"

definition example_z :: "real list" where
  "example_z = [5, 2, 3, 4]"

definition example_params :: params where
  "example_params = default_params\<lparr>special_codes_x := PCodes [- 999]\<rparr>"

definition example_model_data :: "unit model_data" where
  "example_model_data =
     \<lparr>md_rows = [[0, 1, 2, 3], [0, 1], [2, 3]],
      md_n_records = [2, 0, 2],
      md_sums = [7, 0, 7],
      md_stds = [3 / 2, 0, 3 / 2],
      md_other = ()\<rparr>"

definition example_ext :: "string \<Rightarrow> bool list \<Rightarrow> (unit, unit) externals" where
  "example_ext status solution =
     \<lparr>split_data_2d = split_data_2d_spec,
      fit_prebinning = (\<lambda>p dt vs zs max_n min_size. Inr [0]),
      tree_fit = (\<lambda>clf xyt zs. Inr ()),
      effective_n_jobs = (\<lambda>v. Inr 1),
      continuous_model_data = (\<lambda>R S SS mx my scale min_b max_b. Inr example_model_data),
      continuous_model_data_cart =
        (\<lambda>clf R S SS mx my scale min_b max_b. Inr example_model_data),
      optimizer_solve = (\<lambda>kind p nj md. Inr (status, solution, ())),
      solver_statistics = (\<lambda>sv obj. Inr ()),
      splits_xy_optimal = (\<lambda>sel sx sy P m n. Inr ([], [])),
      transform_continuous_target =
        (\<lambda>sx sy x y nr sm cx cy metric ms mm digits chk. Inr [])\<rparr>"

section \<open>Cell assignment\<close>

lemma searchsorted_right_count:
  "sorted bs \<Longrightarrow> searchsorted_right bs v = count_at_most bs v"
proof (induction bs)
  case Nil
  then show ?case by (simp add: count_at_most_def)
next
  case (Cons b bs)
  show ?case
  proof (cases "b \<le> v")
    case True
    with Cons show ?thesis by (simp add: count_at_most_def)
  next
    case False
    with Cons.prems have "\<forall>s \<in> set (b # bs). \<not> s \<le> v" by fastforce
    then have "filter (\<lambda>s. s \<le> v) (b # bs) = []" by (simp only: filter_False)
    with False show ?thesis by (simp add: count_at_most_def)
  qed
qed

text \<open>
  Claim C6, as amended. For every ascending split array and every array of real values,
  \<^verbatim>\<open>np.digitize(values, splits, right=False)\<close> returns without raising, and the pre-bin
  index of a value \<open>v\<close> is the number of split points that are less than or equal to \<open>v\<close>
  (right-open intervals: a value equal to a split point belongs to the bin on its right).
\<close>

theorem digitize_count_at_most:
  assumes "sorted splits"
  shows "digitize xs splits = Inr (map (count_at_most splits) xs)"
  using assms by (simp add: digitize_def searchsorted_right_count)

theorem digitize_count_at_most_witness:
  "sorted [1::real] \<and> digitize [1, 0] [1] = Inr [1, 0]"
  using digitize_count_at_most [of "[1]" "[1, 0]"] by (simp add: count_at_most_def)

text \<open>
  Claim C6 as stated fails: at the value \<open>1\<close> with the single split point \<open>1\<close> the index
  is \<open>1\<close>, while no split point is strictly less than \<open>1\<close>.
\<close>

theorem digitize_strictly_less_counterexample:
  "digitize [1] [1] \<noteq> Inr [count_strictly_less [1] 1]"
  by (simp add: digitize_def count_strictly_less_def)

section \<open>Number of refinements\<close>

text \<open>
  Claim C8. Whatever the candidate list and however post-processing ends, the recorded
  number of refinements is \<open>m * n * (m + 1) * (n + 1) div 4\<close> minus the number of
  candidates, for the shape \<open>(m, n)\<close> of the count matrix, in integer arithmetic; the
  product is divisible by four, so the division is exact.
\<close>

theorem n_refinements_exact:
  "self_n_refinements
     (snd (postprocess ext self splits_x splits_y R rows n_records sums_v stds))
     = (int (shape0 R) * int (shape1 R) * (int (shape0 R) + 1) * (int (shape1 R) + 1)) div 4
         - int (length rows)
   \<and> 4 dvd int (shape0 R) * int (shape1 R) * (int (shape0 R) + 1) * (int (shape1 R) + 1)"
proof
  show "self_n_refinements
          (snd (postprocess ext self splits_x splits_y R rows n_records sums_v stds))
     = (int (shape0 R) * int (shape1 R) * (int (shape0 R) + 1) * (int (shape1 R) + 1)) div 4
         - int (length rows)"
    by (simp add: postprocess_def Let_def split: option.splits sum.splits prod.splits)
next
  have a: "2 dvd int (shape0 R) * (int (shape0 R) + 1)" by simp
  have b: "2 dvd int (shape1 R) * (int (shape1 R) + 1)" by simp
  have "2 * 2 dvd (int (shape0 R) * (int (shape0 R) + 1)) * (int (shape1 R) * (int (shape1 R) + 1))"
    using a b by (rule mult_dvd_mono)
  then show "4 dvd int (shape0 R) * int (shape1 R) * (int (shape0 R) + 1) * (int (shape1 R) + 1)"
    by (simp add: mult.assoc mult.left_commute)
qed

section \<open>Configuration errors\<close>

lemmas chk_defs = chk_str_def chk_in_def chk_prebins_def chk_fraction_def
  chk_opt_positive_def chk_opt_le_def chk_opt_fraction_def chk_opt_in_def chk_number_def
  chk_nonneg_def chk_opt_codes_def chk_opt_digits_def chk_opt_integral_def chk_bool_def

lemma first_error_Inl: "first_error cs = Inl e \<Longrightarrow> Some e \<in> set cs"
  by (induction cs rule: first_error.induct) auto

lemma first_error_Inr: "first_error cs = Inr u \<Longrightarrow> c \<in> set cs \<Longrightarrow> c = None"
  by (induction cs rule: first_error.induct) auto

lemma chk_config_error:
  "chk_str nm v = Some e \<Longrightarrow> is_config_error e"
  "chk_in nm v al = Some e \<Longrightarrow> is_config_error e"
  "chk_prebins nm v = Some e \<Longrightarrow> is_config_error e"
  "chk_fraction nm v hi = Some e \<Longrightarrow> is_config_error e"
  "chk_opt_positive nm v = Some e \<Longrightarrow> is_config_error e"
  "chk_opt_le nm v w = Some e \<Longrightarrow> is_config_error e"
  "chk_opt_fraction nm v hi = Some e \<Longrightarrow> is_config_error e"
  "chk_opt_in nm v al = Some e \<Longrightarrow> is_config_error e"
  "chk_number nm v = Some e \<Longrightarrow> is_config_error e"
  "chk_nonneg nm v = Some e \<Longrightarrow> is_config_error e"
  "chk_opt_codes nm v = Some e \<Longrightarrow> is_config_error e"
  "chk_opt_digits nm v = Some e \<Longrightarrow> is_config_error e"
  "chk_opt_integral nm v = Some e \<Longrightarrow> is_config_error e"
  "chk_bool nm v = Some e \<Longrightarrow> is_config_error e"
  by (auto simp: chk_defs split: if_splits option.splits prod.splits)

lemma check_parameters_config_error:
  assumes "check_parameters p = Inl e"
  shows "is_config_error e"
proof -
  from assms have "Some e \<in> set
     [chk_str ''name_x'' (name_x p),
      chk_str ''name_y'' (name_y p),
      chk_in ''dtype_x'' (dtype_x p) [''numerical''],
      chk_in ''dtype_y'' (dtype_y p) [''numerical''],
      chk_in ''prebinning_method'' (prebinning_method p)
        [''cart'', ''mdlp'', ''quantile'', ''uniform''],
      chk_in ''strategy'' (strategy p) [''grid'', ''cart''],
      chk_in ''solver'' (solver p) [''cp'', ''mip''],
      chk_prebins ''max_n_prebins_x'' (max_n_prebins_x p),
      chk_prebins ''max_n_prebins_y'' (max_n_prebins_y p),
      chk_fraction ''min_prebin_size_x'' (min_prebin_size_x p) (1/2),
      chk_fraction ''min_prebin_size_y'' (min_prebin_size_y p) (1/2),
      chk_opt_positive ''min_n_bins'' (min_n_bins p),
      chk_opt_positive ''max_n_bins'' (max_n_bins p),
      chk_opt_le ''min_n_bins'' (min_n_bins p) (max_n_bins p),
      chk_opt_fraction ''min_bin_size'' (min_bin_size p) (1/2),
      chk_opt_fraction ''max_bin_size'' (max_bin_size p) 1,
      chk_opt_le ''min_bin_size'' (min_bin_size p) (max_bin_size p),
      chk_opt_in ''monotonic_trend_x'' (monotonic_trend_x p) [''ascending'', ''descending''],
      chk_opt_in ''monotonic_trend_y'' (monotonic_trend_y p) [''ascending'', ''descending''],
      chk_number ''min_mean_diff_x'' (min_mean_diff_x p),
      chk_number ''min_mean_diff_y'' (min_mean_diff_y p),
      chk_nonneg ''gamma'' (gamma p),
      chk_opt_codes ''special_codes_x'' (special_codes_x p),
      chk_opt_codes ''special_codes_y'' (special_codes_y p),
      chk_opt_digits ''split_digits'' (split_digits p),
      chk_opt_integral ''n_jobs'' (n_jobs p),
      chk_nonneg ''time_limit'' (time_limit p),
      chk_bool ''verbose'' (verbose p)]"
    unfolding check_parameters_def by (rule first_error_Inl)
  then show ?thesis
    unfolding set_simps insert_iff empty_iff
    by (elim disjE) (auto dest: chk_config_error [OF sym])
qed

lemma check_parameters_passes:
  assumes "check_parameters p = Inr u"
  shows "chk_nonneg ''gamma'' (gamma p) = None"
    and "chk_nonneg ''time_limit'' (time_limit p) = None"
    and "chk_fraction ''min_prebin_size_x'' (min_prebin_size_x p) (1/2) = None"
    and "chk_fraction ''min_prebin_size_y'' (min_prebin_size_y p) (1/2) = None"
    and "chk_opt_le ''min_n_bins'' (min_n_bins p) (max_n_bins p) = None"
  by (rule first_error_Inr [OF assms [unfolded check_parameters_def]], simp)+

lemma check_parameters_raises:
  "check_parameters p \<noteq> Inr () \<Longrightarrow> \<exists>e. check_parameters p = Inl e"
  by (cases "check_parameters p") auto

lemma u_fit_invalid:
  assumes "check_parameters (get_params self) = Inl e"
  shows "u_fit ext self x y z c = (Inl e, self)"
  using assms by (simp add: u_fit_def)

text \<open>
  Claim C9. Whenever \<^verbatim>\<open>_check_parameters\<close> rejects the configuration, \<^verbatim>\<open>_fit\<close> raises that
  error, a \<open>TypeError\<close> or \<open>ValueError\<close>, whatever the data \<open>x\<close>, \<open>y\<close>, \<open>z\<close> and the
  collaborators are, and leaves the instance as it was. A negative \<open>gamma\<close>, a negative
  \<open>time_limit\<close>, a \<open>min_prebin_size\<close> outside \<open>(0, 0.5]\<close> and \<open>min_n_bins > max_n_bins\<close> are
  rejected.
\<close>

theorem invalid_configuration_raises_first:
  "(\<forall>e. check_parameters (get_params self) = Inl e \<longrightarrow>
       is_config_error e \<and> (\<forall>x y z c. u_fit ext self x y z c = (Inl e, self)))
   \<and> (\<forall>g. num_val (gamma (get_params self)) = Some g \<and> g < 0 \<longrightarrow>
          (\<exists>e. check_parameters (get_params self) = Inl e))
   \<and> (\<forall>t. num_val (time_limit (get_params self)) = Some t \<and> t < 0 \<longrightarrow>
          (\<exists>e. check_parameters (get_params self) = Inl e))
   \<and> (\<forall>r. num_val (min_prebin_size_x (get_params self)) = Some r
            \<and> \<not> (0 < r \<and> r \<le> 1/2) \<longrightarrow>
          (\<exists>e. check_parameters (get_params self) = Inl e))
   \<and> (\<forall>r. num_val (min_prebin_size_y (get_params self)) = Some r
            \<and> \<not> (0 < r \<and> r \<le> 1/2) \<longrightarrow>
          (\<exists>e. check_parameters (get_params self) = Inl e))
   \<and> (\<forall>a b. min_n_bins (get_params self) = PInt a
            \<and> max_n_bins (get_params self) = PInt b \<and> a > b \<longrightarrow>
          (\<exists>e. check_parameters (get_params self) = Inl e))"
proof -
  have g: "\<exists>e. check_parameters p = Inl e" if "num_val (gamma p) = Some g" "g < 0" for p g
  proof (rule check_parameters_raises, rule notI)
    assume "check_parameters p = Inr ()"
    from check_parameters_passes(1) [OF this] that show False
      by (simp add: chk_nonneg_def split: if_splits)
  qed
  have t: "\<exists>e. check_parameters p = Inl e"
    if "num_val (time_limit p) = Some g" "g < 0" for p g
  proof (rule check_parameters_raises, rule notI)
    assume "check_parameters p = Inr ()"
    from check_parameters_passes(2) [OF this] that show False
      by (simp add: chk_nonneg_def split: if_splits)
  qed
  have px: "\<exists>e. check_parameters p = Inl e"
    if "num_val (min_prebin_size_x p) = Some r" "\<not> (0 < r \<and> r \<le> 1/2)" for p r
  proof (rule check_parameters_raises, rule notI)
    assume "check_parameters p = Inr ()"
    from check_parameters_passes(3) [OF this] that show False
      by (simp add: chk_fraction_def split: if_splits)
  qed
  have py: "\<exists>e. check_parameters p = Inl e"
    if "num_val (min_prebin_size_y p) = Some r" "\<not> (0 < r \<and> r \<le> 1/2)" for p r
  proof (rule check_parameters_raises, rule notI)
    assume "check_parameters p = Inr ()"
    from check_parameters_passes(4) [OF this] that show False
      by (simp add: chk_fraction_def split: if_splits)
  qed
  have nb: "\<exists>e. check_parameters p = Inl e"
    if "min_n_bins p = PInt a" "max_n_bins p = PInt b" "a > b" for p a b
  proof (rule check_parameters_raises, rule notI)
    assume "check_parameters p = Inr ()"
    from check_parameters_passes(5) [OF this] that show False
      by (simp add: chk_opt_le_def split: if_splits)
  qed
  show ?thesis
    apply (intro conjI allI impI)
    subgoal by (rule check_parameters_config_error)
    subgoal by (rule u_fit_invalid)
    subgoal by (elim conjE, rule g)
    subgoal by (elim conjE, rule t)
    subgoal by (elim conjE, rule px)
    subgoal by (elim conjE, rule py)
    subgoal by (elim conjE, rule nb)
    done
qed

theorem invalid_configuration_raises_first_witness:
  "check_parameters (get_params (init (default_params\<lparr>gamma := PInt (- 1)\<rparr>)))
     = Inl (ValueError ''gamma'')
   \<and> is_config_error (ValueError ''gamma'')
   \<and> u_fit (example_ext ''OPTIMAL'' [False, True, True])
         (init (default_params\<lparr>gamma := PInt (- 1)\<rparr>)) example_x example_y example_z False
       = (Inl (ValueError ''gamma''), init (default_params\<lparr>gamma := PInt (- 1)\<rparr>))"
proof -
  have c: "check_parameters (get_params (init (default_params\<lparr>gamma := PInt (- 1)\<rparr>)))
     = Inl (ValueError ''gamma'')"
    by (simp add: init_def check_parameters_def default_params_def chk_defs)
  from invalid_configuration_raises_first
    [of "init (default_params\<lparr>gamma := PInt (- 1)\<rparr>)"
        "example_ext ''OPTIMAL'' [False, True, True]"] c
  show ?thesis by simp
qed

section \<open>The example run, stage by stage\<close>

lemmas example_defs = example_ext_def example_params_def default_params_def init_def
  example_x_def example_y_def example_z_def example_model_data_def

lemmas stage_defs = u_fit_def check_parameters_def chk_defs split_data_2d_spec_def
  matches_code_def prebinning_matrices_def digitize_def x_clean_def y_clean_def z_clean_def
  z_missing_def z_special_def Let_def np_empty2_def cell_body_def mask_select_def cell_mask_def
  setitem2_def upt_rec np_sum_def np_std_def np_mean_def np_size2_def cart_stage_def
  fit_optimizer_def bin_size_bound_def optimize_with_bounds_def solver_choice_def
  model_data_call_def postprocess_def reconstruct_def recon_step_def virtual_bins_def
  getitem_def setitem1_def setitem_neg_def set_cells_def join_names_def np_div_def
  enumerate_eq_zip

section \<open>The tree of the cart strategy: its parameters\<close>

text \<open>
  Claim C10. When the strategy is \<open>cart\<close> and the block completes, the tree stored in
  \<^verbatim>\<open>self._clf\<close> was built with a minimum leaf size of one quarter of the smaller of the two
  axis pre-bin size fractions and a maximum leaf count equal to the product of the lengths
  of the two split arrays, and it was fitted on the clean target.
\<close>

theorem cart_tree_parameters:
  assumes "strategy (get_params self) = PStr ''cart''"
    and "cart_stage ext self splits_x splits_y seg = (Inr (), self')"
    and "num_val (min_prebin_size_x (get_params self)) = Some px"
    and "num_val (min_prebin_size_y (get_params self)) = Some py"
  shows "\<exists>clf xyt. self_clf self' = Some clf
           \<and> min_samples_leaf clf = min px py / 4
           \<and> max_leaf_nodes clf = length splits_x * length splits_y
           \<and> fitted_on clf = Some (xyt, z_clean seg)"
  using assms
  by (auto simp: cart_stage_def Let_def quarter_min_def split: sum.splits if_splits)

theorem cart_tree_parameters_witness:
  "strategy (get_params (init (example_params\<lparr>strategy := PStr ''cart''\<rparr>))) = PStr ''cart''
   \<and> (\<exists>clf xyt. self_clf (snd (cart_stage (example_ext ''OPTIMAL'' [False, True, True])
                 (init (example_params\<lparr>strategy := PStr ''cart''\<rparr>)) [0] [0]
                 \<lparr>clean = [(1, 1, 5), (- 1, 1, 2)], missing = [], special = []\<rparr>)) = Some clf
        \<and> min_samples_leaf clf = 1 / 80 \<and> max_leaf_nodes clf = 1
        \<and> fitted_on clf = Some (xyt, [5, 2]))"
proof -
  have a: "strategy (get_params (init (example_params\<lparr>strategy := PStr ''cart''\<rparr>)))
             = PStr ''cart''"
    by (simp add: init_def)
  have b: "fst (cart_stage (example_ext ''OPTIMAL'' [False, True, True])
                 (init (example_params\<lparr>strategy := PStr ''cart''\<rparr>)) [0] [0]
                 \<lparr>clean = [(1, 1, 5), (- 1, 1, 2)], missing = [], special = []\<rparr>) = Inr ()"
    by (simp add: example_defs cart_stage_def digitize_def x_clean_def y_clean_def z_clean_def
        Let_def quarter_min_def)
  have c: "num_val (min_prebin_size_x
             (get_params (init (example_params\<lparr>strategy := PStr ''cart''\<rparr>)))) = Some (1/20)"
    "num_val (min_prebin_size_y
             (get_params (init (example_params\<lparr>strategy := PStr ''cart''\<rparr>)))) = Some (1/20)"
    by (simp_all add: example_defs)
  from cart_tree_parameters [OF a _ c, of "example_ext ''OPTIMAL'' [False, True, True]"
      "[0]" "[0]" "\<lparr>clean = [(1, 1, 5), (- 1, 1, 2)], missing = [], special = []\<rparr>"
      "snd (cart_stage (example_ext ''OPTIMAL'' [False, True, True])
                 (init (example_params\<lparr>strategy := PStr ''cart''\<rparr>)) [0] [0]
                 \<lparr>clean = [(1, 1, 5), (- 1, 1, 2)], missing = [], special = []\<rparr>)"] b
  show ?thesis by (simp add: prod_eq_iff a z_clean_def)
qed

end
